theory Spec2Isabelle
  imports Main
begin

section \<open>The integrations service of nocodb\<close>

text \<open>
  A shallow embedding of \<^verbatim>\<open>packages/nocodb/src/services/integrations.service.ts\<close>.
  The class \<^verbatim>\<open>IntegrationsService\<close> is written as functions over an explicit world: the
  durable metadata store, the working copy of an open transaction, the distributed
  cache, the connection pool of this process, the command bus and the emitted events.
  Every \<^verbatim>\<open>await\<close> is a sequencing step; every \<^verbatim>\<open>throw\<close> is a value \<open>Inl e\<close>, and the
  world reached when the exception leaves the function is returned with it.
  \<^verbatim>\<open>integrationList\<close> hands its arguments to \<^verbatim>\<open>Integration.list\<close> and returns the result;
  it is left out, no property below being about it.
\<close>

subsection \<open>Data\<close>

type_synonym ident = string

text \<open>
  The \<^verbatim>\<open>config\<close> field holds either the encrypted blob kept at rest or the decrypted
  connection config. The encryption algorithm is outside the service; the two
  constructors keep apart what is sealed and what is opened.
\<close>

datatype cfg = Sealed string | Opened string

fun decrypt :: "cfg \<Rightarrow> cfg" where
  "decrypt (Sealed s) = Opened s"
| "decrypt (Opened s) = Opened s"

fun encrypt :: "cfg \<Rightarrow> cfg" where
  "encrypt (Opened s) = Sealed s"
| "encrypt (Sealed s) = Sealed s"

text \<open>
  A row of \<^verbatim>\<open>MetaTable.BASES\<close> (a source). The fields are \<^verbatim>\<open>id\<close>, \<^verbatim>\<open>base_id\<close>,
  \<^verbatim>\<open>fk_workspace_id\<close>, \<^verbatim>\<open>fk_integration_id\<close>, \<^verbatim>\<open>deleted\<close> and \<^verbatim>\<open>integration_config\<close>;
  they carry the prefix \<open>src_\<close> because record fields are global names. The delete
  flag is tri-state: \<open>None\<close> is SQL null.
\<close>

record source =
  src_id :: ident
  src_base_id :: ident
  src_fk_workspace_id :: ident
  src_fk_integration_id :: "ident option"
  src_deleted :: "bool option"
  src_integration_config :: "cfg option"

record base =
  base_id :: ident
  base_fk_workspace_id :: ident
  base_title :: string

text \<open>An \<^verbatim>\<open>Integration\<close> object; \<open>int_config = None\<close> is \<^verbatim>\<open>config === undefined\<close>.\<close>

record integration =
  int_id :: ident
  int_fk_workspace_id :: ident
  int_title :: string
  int_config :: "cfg option"
  int_deleted :: "bool option"
  int_created_by :: "ident option"
  int_sources :: "source list option"

text \<open>\<^verbatim>\<open>IntegrationReqType\<close>, the payload of create and update.\<close>

record integration_req =
  req_title :: string
  req_config :: "cfg option"
  req_fk_workspace_id :: ident
  copy_from_id :: "ident option"

text \<open>\<^verbatim>\<open>NcRequest\<close>: only \<^verbatim>\<open>req.user\<close> is read, and of it only \<^verbatim>\<open>id\<close>.\<close>

record nc_request =
  user :: "ident option"

record store =
  integrations :: "integration list"
  sources :: "source list"
  bases :: "base list"

datatype handle = Root | Trx

datatype command = RELEASE

datatype app_event = INTEGRATION_UPDATE | INTEGRATION_DELETE | INTEGRATION_CREATE

text \<open>
  The calls into collaborators. A call listed in \<open>faults\<close> of the world raises
  instead of doing its work: this is how a store, cache, pool or bus failure enters
  the model.
\<close>

datatype call =
    ValidatePayload
  | StartTransaction | Commit | Rollback
  | IntegrationGet ident | GetConnectionConfig ident | GetSources ident
  | UpdateIntegration ident | CreateIntegration
  | IntegrationDelete ident | SoftDelete ident
  | MetaList2
  | BaseGet ident | BaseDelete ident
  | CacheUpdate string | ConnDelete ident
  | EmitWorker ident | EmitPrimary ident

datatype err =
    Fault call
  | TypeError
  | TransactionClosed
  | IntegrationNotFound ident
  | IntegrationLinkedWithMultiple "base option list" "source list"
  | BadRequest err

record world =
  db :: store
  tx :: "store option"
  cache :: "(string \<times> source) list"
  conns :: "ident list"
  bus_available :: bool
  worker_cmds :: "(command \<times> ident) list"
  primary_cmds :: "(command \<times> ident) list"
  events :: "(app_event \<times> integration \<times> nc_request) list"
  faults :: "call list"

subsection \<open>Sequencing, exceptions, loops\<close>

type_synonym 'a prog = "world \<Rightarrow> (err + 'a) \<times> world"

definition ret :: "'a \<Rightarrow> 'a prog" where
  "ret x w = (Inr x, w)"

definition raise :: "err \<Rightarrow> 'a prog" where
  "raise e w = (Inl e, w)"

definition seq :: "'a prog \<Rightarrow> ('a \<Rightarrow> 'b prog) \<Rightarrow> 'b prog" where
  "seq m k w = (case m w of (Inl e, w') \<Rightarrow> (Inl e, w') | (Inr x, w') \<Rightarrow> k x w')"

definition try_catch :: "'a prog \<Rightarrow> (err \<Rightarrow> 'a prog) \<Rightarrow> 'a prog" where
  "try_catch m h w = (case m w of (Inl e, w') \<Rightarrow> h e w' | (Inr x, w') \<Rightarrow> (Inr x, w'))"

definition call :: "call \<Rightarrow> 'a prog \<Rightarrow> 'a prog" where
  "call c m w = (if c \<in> set (faults w) then (Inl (Fault c), w) else m w)"

text \<open>\<^verbatim>\<open>for (const x of xs) { await f(x) }\<close>\<close>

fun for_each :: "('a \<Rightarrow> unit prog) \<Rightarrow> 'a list \<Rightarrow> unit prog" where
  "for_each f [] = ret ()"
| "for_each f (x # xs) = seq (f x) (\<lambda>_. for_each f xs)"

text \<open>
  \<^verbatim>\<open>await Promise.all(xs.map(async (x) => await f(x)))\<close>. The bodies mapped in this
  file only read, so the order in which the promises settle does not show; they are
  run left to right and the first rejection is the rejection of the whole.
\<close>

fun map_all :: "('a \<Rightarrow> 'b prog) \<Rightarrow> 'a list \<Rightarrow> 'b list prog" where
  "map_all f [] = ret []"
| "map_all f (x # xs) = seq (f x) (\<lambda>y. seq (map_all f xs) (\<lambda>ys. ret (y # ys)))"

subsection \<open>The metadata store\<close>

text \<open>
  Modelled from the spec: the metadata store (\<^verbatim>\<open>Noco.ncMeta\<close>) is not in the source
  file. The spec gives it as a transactional store with begin, commit and rollback,
  where mutations made through a transaction handle are durable only after commit.
  \<open>db\<close> is the durable state; \<open>tx\<close> is the working copy of the open transaction.
  \<open>Root\<close> is \<^verbatim>\<open>Noco.ncMeta\<close> itself, \<open>Trx\<close> the handle that
  \<^verbatim>\<open>startTransaction\<close> returns. A handle whose transaction is closed raises.
\<close>

definition read_store :: "handle \<Rightarrow> store prog" where
  "read_store h w =
     (case h of
        Root \<Rightarrow> (Inr (db w), w)
      | Trx \<Rightarrow> (case tx w of Some s \<Rightarrow> (Inr s, w) | None \<Rightarrow> (Inl TransactionClosed, w)))"

definition write_store :: "handle \<Rightarrow> store \<Rightarrow> unit prog" where
  "write_store h s w =
     (case h of
        Root \<Rightarrow> (Inr (), w\<lparr>db := s\<rparr>)
      | Trx \<Rightarrow> (case tx w of Some _ \<Rightarrow> (Inr (), w\<lparr>tx := Some s\<rparr>)
                | None \<Rightarrow> (Inl TransactionClosed, w)))"

text \<open>Modelled from the spec: \<^verbatim>\<open>Noco.ncMeta.startTransaction()\<close>, the store's begin.\<close>

definition Noco_ncMeta_startTransaction :: "handle prog" where
  "Noco_ncMeta_startTransaction =
     call StartTransaction (\<lambda>w. (Inr Trx, w\<lparr>tx := Some (db w)\<rparr>))"

text \<open>
  Modelled from the spec: \<^verbatim>\<open>ncMeta.commit()\<close> makes the working copy durable, all of
  it or (when the call fails) none of it.
\<close>

definition ncMeta_commit :: "unit prog" where
  "ncMeta_commit =
     call Commit (\<lambda>w. case tx w of
                         Some s \<Rightarrow> (Inr (), w\<lparr>db := s, tx := None\<rparr>)
                       | None \<Rightarrow> (Inl TransactionClosed, w))"

text \<open>Modelled from the spec: \<^verbatim>\<open>ncMeta.rollback(e)\<close> drops the working copy.\<close>

definition ncMeta_rollback :: "unit prog" where
  "ncMeta_rollback = call Rollback (\<lambda>w. (Inr (), w\<lparr>tx := None\<rparr>))"

text \<open>
  The arguments of \<^verbatim>\<open>metaList2(workspace_id, base_id, target, args)\<close>. The target is
  \<^verbatim>\<open>MetaTable.BASES\<close> at both call sites, so the rows are sources. A scope is
  \<^verbatim>\<open>RootScopes.WORKSPACE\<close> or an identifier; \<^verbatim>\<open>condition\<close> is an object of column and
  value; \<^verbatim>\<open>xcCondition\<close> is built from \<^verbatim>\<open>{ col: { eq: v } }\<close> and \<^verbatim>\<open>{ _or: [...] }\<close>.
\<close>

datatype scope = RootScopes_WORKSPACE | Scope ident

datatype col = fk_workspace_id | fk_integration_id | deleted

datatype val = VStr ident | VBool bool | VNull

datatype xc = XEq col val | XOr "xc list"

record list_args =
  condition :: "(col \<times> val) list"
  xcCondition :: xc

fun source_col :: "source \<Rightarrow> col \<Rightarrow> val" where
  "source_col r fk_workspace_id = VStr (src_fk_workspace_id r)"
| "source_col r fk_integration_id =
     (case src_fk_integration_id r of None \<Rightarrow> VNull | Some i \<Rightarrow> VStr i)"
| "source_col r deleted = (case src_deleted r of None \<Rightarrow> VNull | Some b \<Rightarrow> VBool b)"

fun xc_holds :: "source \<Rightarrow> xc \<Rightarrow> bool" where
  "xc_holds r (XEq c v) = (source_col r c = v)"
| "xc_holds r (XOr cs) = list_ex (xc_holds r) cs"

fun in_scope :: "scope \<Rightarrow> ident \<Rightarrow> bool" where
  "in_scope RootScopes_WORKSPACE x = True"
| "in_scope (Scope i) x = (x = i)"

text \<open>
  Modelled from the spec: \<^verbatim>\<open>ncMeta.metaList2\<close> is the store's list with condition and
  boolean-OR filter expressions, scoped by workspace or root identifiers. A root
  scope does not restrict; \<^verbatim>\<open>eq: null\<close> holds of a column that is null.
\<close>

definition ncMeta_metaList2 ::
  "handle \<Rightarrow> scope \<Rightarrow> scope \<Rightarrow> list_args \<Rightarrow> source list prog" where
  "ncMeta_metaList2 ncMeta workspace_scope base_scope args =
     call MetaList2
       (seq (read_store ncMeta) (\<lambda>s.
        ret (filter (\<lambda>r. in_scope workspace_scope (src_fk_workspace_id r)
                        \<and> in_scope base_scope (src_base_id r)
                        \<and> list_all (\<lambda>(c, v). source_col r c = v) (condition args)
                        \<and> xc_holds r (xcCondition args))
               (sources s))))"

subsection \<open>The models\<close>

text \<open>
  Modelled from the spec: \<^verbatim>\<open>Integration.get(context, id, flag, ncMeta)\<close> is not in the
  source file. The spec has it as \<open>get(id, includeConfig=false)\<close>: the third argument
  asks for the config decrypted; without it the blob stays sealed. A missing row
  gives \<^verbatim>\<open>undefined\<close>, which is what \<^verbatim>\<open>integrationCreate\<close> tests for with
  \<^verbatim>\<open>!integrationBody?.id\<close>. The context (workspace scoping, authorisation) is outside
  the embedding.
\<close>

definition Integration_get :: "ident \<Rightarrow> bool \<Rightarrow> handle \<Rightarrow> integration option prog" where
  "Integration_get integrationId includeConfig ncMeta =
     call (IntegrationGet integrationId)
       (seq (read_store ncMeta) (\<lambda>s.
        ret (map_option
               (\<lambda>r. if includeConfig then r\<lparr>int_config := map_option decrypt (int_config r)\<rparr>
                    else r)
               (find (\<lambda>r. int_id r = integrationId) (integrations s)))))"

text \<open>
  Modelled from the spec: \<^verbatim>\<open>integration.getConnectionConfig()\<close> is the registry's
  accessor that decrypts the sealed blob.
\<close>

definition getConnectionConfig :: "integration \<Rightarrow> cfg option prog" where
  "getConnectionConfig integration =
     call (GetConnectionConfig (int_id integration))
       (ret (map_option decrypt (int_config integration)))"

definition is_active :: "source \<Rightarrow> bool" where
  "is_active r = (src_deleted r = Some False \<or> src_deleted r = None)"

text \<open>
  Modelled from the spec: \<^verbatim>\<open>integration.getSources()\<close> loads the sources that refer to
  the integration into the object (its \<^verbatim>\<open>sources\<close> property) and changes nothing else.
\<close>

definition getSources :: "integration \<Rightarrow> integration prog" where
  "getSources integration =
     call (GetSources (int_id integration))
       (seq (read_store Root) (\<lambda>s.
        ret (integration\<lparr>int_sources :=
               Some (filter (\<lambda>r. src_fk_integration_id r = Some (int_id integration)
                                 \<and> is_active r) (sources s))\<rparr>)))"

text \<open>
  Modelled from the spec: \<^verbatim>\<open>Integration.updateIntegration(context, id, body)\<close> persists
  the fields of the body on the row and returns the stored integration, the config
  sealed; a missing row is a NotFound error.
\<close>

definition apply_req :: "integration_req \<Rightarrow> integration \<Rightarrow> integration" where
  "apply_req body r =
     r\<lparr>int_title := req_title body,
       int_config := (case req_config body of None \<Rightarrow> int_config r
                      | Some c \<Rightarrow> Some (encrypt c))\<rparr>"

definition Integration_updateIntegration ::
  "ident \<Rightarrow> integration_req \<Rightarrow> integration prog" where
  "Integration_updateIntegration integrationId body =
     call (UpdateIntegration integrationId)
       (seq (read_store Root) (\<lambda>s.
        case find (\<lambda>r. int_id r = integrationId) (integrations s) of
          None \<Rightarrow> raise (IntegrationNotFound integrationId)
        | Some r \<Rightarrow>
            seq (write_store Root
                   (s\<lparr>integrations :=
                        map (\<lambda>x. if int_id x = integrationId then apply_req body x else x)
                          (integrations s)\<rparr>)) (\<lambda>_.
            ret (apply_req body r))))"

text \<open>An identifier that no row of the list has: longer than each of them.\<close>

definition fresh_id :: "ident list \<Rightarrow> ident" where
  "fresh_id used = replicate (Suc (foldr max (map length used) 0)) (CHR ''i'')"

text \<open>
  Modelled from the spec: \<^verbatim>\<open>Integration.createIntegration(body)\<close> inserts a new record
  with an identity of its own (the \<^verbatim>\<open>id\<close> of the body, present when the body is a copy,
  is not taken over), seals the config and returns the stored integration.
\<close>

definition Integration_createIntegration :: "integration \<Rightarrow> integration prog" where
  "Integration_createIntegration body =
     call CreateIntegration
       (seq (read_store Root) (\<lambda>s.
        let row = \<lparr>int_id = fresh_id (map int_id (integrations s)),
                   int_fk_workspace_id = int_fk_workspace_id body,
                   int_title = int_title body,
                   int_config = map_option encrypt (int_config body),
                   int_deleted = None,
                   int_created_by = int_created_by body,
                   int_sources = None\<rparr>
        in seq (write_store Root (s\<lparr>integrations := integrations s @ [row]\<rparr>)) (\<lambda>_.
           ret row)))"

text \<open>Modelled from the spec: \<^verbatim>\<open>integration.delete(ncMeta)\<close> removes the row.\<close>

definition Integration_delete :: "integration \<Rightarrow> handle \<Rightarrow> unit prog" where
  "Integration_delete integration ncMeta =
     call (IntegrationDelete (int_id integration))
       (seq (read_store ncMeta) (\<lambda>s.
        write_store ncMeta
          (s\<lparr>integrations :=
               filter (\<lambda>r. int_id r \<noteq> int_id integration) (integrations s)\<rparr>)))"

text \<open>
  Modelled from the spec: \<^verbatim>\<open>integration.softDelete()\<close> sets the delete flag of the row
  in one durable write, and nothing else.
\<close>

definition Integration_softDelete :: "integration \<Rightarrow> unit prog" where
  "Integration_softDelete integration =
     call (SoftDelete (int_id integration))
       (seq (read_store Root) (\<lambda>s.
        write_store Root
          (s\<lparr>integrations :=
               map (\<lambda>r. if int_id r = int_id integration then r\<lparr>int_deleted := Some True\<rparr>
                        else r)
                 (integrations s)\<rparr>)))"

text \<open>Modelled from the spec: \<^verbatim>\<open>Base.get(context, base_id, ncMeta)\<close> reads one base.\<close>

definition Base_get :: "ident \<Rightarrow> handle \<Rightarrow> base option prog" where
  "Base_get bid ncMeta =
     call (BaseGet bid)
       (seq (read_store ncMeta) (\<lambda>s. ret (find (\<lambda>b. base_id b = bid) (bases s))))"

definition CacheScope_BASE :: string where
  "CacheScope_BASE = ''base''"

text \<open>The template literal \<^verbatim>\<open>`${CacheScope.BASE}:${source.id}`\<close>.\<close>

definition cache_key :: "ident \<Rightarrow> string" where
  "cache_key sid = CacheScope_BASE @ '':'' @ sid"

text \<open>
  Modelled from the spec: \<^verbatim>\<open>sourcesService.baseDelete(context, {sourceId, req}, ncMeta)\<close>
  is the source-deletion collaborator: the full teardown of the source (cache entry,
  connection, durable record), the record inside the supplied transaction.
\<close>

definition sourcesService_baseDelete :: "ident \<Rightarrow> handle \<Rightarrow> unit prog" where
  "sourcesService_baseDelete sourceId ncMeta =
     call (BaseDelete sourceId)
       (seq (read_store ncMeta) (\<lambda>s.
        seq (write_store ncMeta (s\<lparr>sources := filter (\<lambda>r. src_id r \<noteq> sourceId) (sources s)\<rparr>))
          (\<lambda>_ w. (Inr (), w\<lparr>cache := filter (\<lambda>(k, _). k \<noteq> cache_key sourceId) (cache w),
                            conns := removeAll sourceId (conns w)\<rparr>))))"

subsection \<open>Cache, connection pool, command bus, events, errors\<close>

text \<open>
  Modelled from the spec: \<^verbatim>\<open>NocoCache.update(key, fields)\<close> merges the fields into the
  cached record at the key; a patch for an absent key is dropped. The only field
  patched here is \<^verbatim>\<open>integration_config\<close>.
\<close>

definition NocoCache_update :: "string \<Rightarrow> cfg option \<Rightarrow> unit prog" where
  "NocoCache_update key integration_config =
     call (CacheUpdate key)
       (\<lambda>w. (Inr (), w\<lparr>cache :=
                 map (\<lambda>(k, r). if k = key
                                then (k, r\<lparr>src_integration_config := integration_config\<rparr>)
                                else (k, r))
                   (cache w)\<rparr>))"

text \<open>
  Modelled from the spec: \<^verbatim>\<open>NcConnectionMgrv2.deleteAwait(source)\<close> tears down and
  forgets the connection this process holds for the source; releasing an unknown
  source does nothing.
\<close>

definition NcConnectionMgrv2_deleteAwait :: "source \<Rightarrow> unit prog" where
  "NcConnectionMgrv2_deleteAwait source =
     call (ConnDelete (src_id source))
       (\<lambda>w. (Inr (), w\<lparr>conns := removeAll (src_id source) (conns w)\<rparr>))"

definition JobsRedis_available :: "bool prog" where
  "JobsRedis_available w = (Inr (bus_available w), w)"

text \<open>
  Modelled from the spec: the two broadcast shapes of the command bus, to the workers
  and to the primary, each taking a command tag and a target identifier.
\<close>

definition JobsRedis_emitWorkerCommand :: "command \<Rightarrow> ident \<Rightarrow> unit prog" where
  "JobsRedis_emitWorkerCommand cmd target =
     call (EmitWorker target)
       (\<lambda>w. (Inr (), w\<lparr>worker_cmds := worker_cmds w @ [(cmd, target)]\<rparr>))"

definition JobsRedis_emitPrimaryCommand :: "command \<Rightarrow> ident \<Rightarrow> unit prog" where
  "JobsRedis_emitPrimaryCommand cmd target =
     call (EmitPrimary target)
       (\<lambda>w. (Inr (), w\<lparr>primary_cmds := primary_cmds w @ [(cmd, target)]\<rparr>))"

text \<open>
  Modelled from the spec: \<^verbatim>\<open>appHooksService.emit(event, {integration, req, user})\<close> is
  fire-and-forget and does not affect the outcome of the operation; \<^verbatim>\<open>user\<close> is
  \<^verbatim>\<open>req?.user\<close> and is read off the request.
\<close>

definition appHooksService_emit :: "app_event \<Rightarrow> integration \<Rightarrow> nc_request \<Rightarrow> unit prog" where
  "appHooksService_emit ev integration req w =
     (Inr (), w\<lparr>events := events w @ [(ev, integration, req)]\<rparr>)"

text \<open>
  Modelled from the spec: \<^verbatim>\<open>validatePayload(schema, payload)\<close> is the schema validation
  collaborator; the schema is not in the source file, so a rejected payload is a
  fault of the call.
\<close>

definition validatePayload :: "integration_req \<Rightarrow> unit prog" where
  "validatePayload payload = call ValidatePayload (ret ())"

text \<open>
  Modelled from the spec: the helpers of \<^verbatim>\<open>NcError\<close> throw. \<^verbatim>\<open>badRequest(e)\<close> is a
  BadRequest-class error wrapping \<open>e\<close>; \<^verbatim>\<open>integrationLinkedWithMultiple\<close> is the
  conflict error with its structured detail, the bases and the sources;
  \<^verbatim>\<open>integrationNotFound\<close> is the NotFound error.
\<close>

definition NcError_badRequest :: "err \<Rightarrow> 'a prog" where
  "NcError_badRequest e = raise (BadRequest e)"

definition NcError_integrationLinkedWithMultiple ::
  "base option list \<Rightarrow> source list \<Rightarrow> 'a prog" where
  "NcError_integrationLinkedWithMultiple bs srcs = raise (IntegrationLinkedWithMultiple bs srcs)"

definition NcError_integrationNotFound :: "ident \<Rightarrow> 'a prog" where
  "NcError_integrationNotFound i = raise (IntegrationNotFound i)"

subsection \<open>The service\<close>

text \<open>
  The filter both listings pass as \<^verbatim>\<open>xcCondition\<close>:
  \<^verbatim>\<open>{ _or: [ { deleted: { eq: false } }, { deleted: { eq: null } } ] }\<close>.
\<close>

definition not_deleted :: xc where
  "not_deleted = XOr [XEq deleted (VBool False), XEq deleted VNull]"

text \<open>
  \<^verbatim>\<open>integrationGetWithConfig\<close>. When \<^verbatim>\<open>Integration.get\<close> gives \<^verbatim>\<open>undefined\<close>, the call
  \<^verbatim>\<open>integration.getConnectionConfig()\<close> is a TypeError.
\<close>

definition integrationGetWithConfig :: "ident \<Rightarrow> bool \<Rightarrow> integration prog" where
  "integrationGetWithConfig integrationId includeSources =
     seq (Integration_get integrationId False Root) (\<lambda>got.
     case got of
       None \<Rightarrow> raise TypeError
     | Some integration \<Rightarrow>
         seq (getConnectionConfig integration) (\<lambda>c.
         let integration = integration\<lparr>int_config := c\<rparr> in
         if includeSources
         then seq (getSources integration) (\<lambda>integration. ret integration)
         else ret integration))"

text \<open>
  \<^verbatim>\<open>updateIntegrationSourceConfig\<close>: the listing of the sources that use the
  integration, then for each of them, in order, the cache patch, the release of the
  local connection and, when the bus is available, the two RELEASE broadcasts.
  \<^verbatim>\<open>new Source(sourceObj)\<close> is the row itself.
\<close>

definition propagate_one :: "integration \<Rightarrow> source \<Rightarrow> unit prog" where
  "propagate_one integration source =
     seq (NocoCache_update (cache_key (src_id source)) (int_config integration)) (\<lambda>_.
     seq (NcConnectionMgrv2_deleteAwait source) (\<lambda>_.
     seq JobsRedis_available (\<lambda>available.
     if available
     then seq (JobsRedis_emitWorkerCommand RELEASE (src_id source)) (\<lambda>_.
          JobsRedis_emitPrimaryCommand RELEASE (src_id source))
     else ret ())))"

definition update_listing :: "integration \<Rightarrow> handle \<Rightarrow> source list prog" where
  "update_listing integration ncMeta =
     ncMeta_metaList2 ncMeta (Scope (int_fk_workspace_id integration)) RootScopes_WORKSPACE
       \<lparr>condition = [(fk_integration_id, VStr (int_id integration))],
        xcCondition = not_deleted\<rparr>"

definition updateIntegrationSourceConfig :: "integration \<Rightarrow> handle \<Rightarrow> unit prog" where
  "updateIntegrationSourceConfig integration ncMeta =
     seq (update_listing integration ncMeta) (\<lambda>sources.
     for_each (propagate_one integration) sources)"

text \<open>
  \<^verbatim>\<open>integrationUpdate\<close>. The body handed to \<^verbatim>\<open>Integration.updateIntegration\<close> is the
  payload with \<^verbatim>\<open>id: param.integrationId\<close>, the identifier that is also its second
  argument.
\<close>

definition integrationUpdate ::
  "ident \<Rightarrow> integration_req \<Rightarrow> nc_request \<Rightarrow> integration prog" where
  "integrationUpdate integrationId integrationBody req =
     seq (validatePayload integrationBody) (\<lambda>_.
     seq (Integration_updateIntegration integrationId integrationBody) (\<lambda>integration.
     seq (updateIntegrationSourceConfig integration Root) (\<lambda>_.
     let integration = integration\<lparr>int_config := None\<rparr> in
     seq (appHooksService_emit INTEGRATION_UPDATE integration req) (\<lambda>_.
     ret integration))))"

text \<open>
  \<^verbatim>\<open>integrationDelete\<close>. \<^verbatim>\<open>startTransaction\<close> is before the \<^verbatim>\<open>try\<close>; everything up
  to and including \<^verbatim>\<open>commit\<close> is inside it; the handler rolls back and throws
  \<^verbatim>\<open>badRequest(e)\<close>. When \<^verbatim>\<open>Integration.get\<close> gives \<^verbatim>\<open>undefined\<close>, reading
  \<^verbatim>\<open>integration.fk_workspace_id\<close> for the listing is a TypeError.
\<close>

definition delete_listing :: "integration \<Rightarrow> handle \<Rightarrow> source list prog" where
  "delete_listing integration ncMeta =
     ncMeta_metaList2 ncMeta RootScopes_WORKSPACE RootScopes_WORKSPACE
       \<lparr>condition = [(fk_workspace_id, VStr (int_fk_workspace_id integration)),
                     (fk_integration_id, VStr (int_id integration))],
        xcCondition = not_deleted\<rparr>"

definition delete_body :: "ident \<Rightarrow> nc_request \<Rightarrow> bool \<Rightarrow> handle \<Rightarrow> unit prog" where
  "delete_body integrationId req force ncMeta =
     seq (Integration_get integrationId True ncMeta) (\<lambda>got.
     case got of
       None \<Rightarrow> raise TypeError
     | Some integration \<Rightarrow>
         seq (delete_listing integration ncMeta) (\<lambda>sources.
         seq (if length sources > 0 \<and> \<not> force
              then seq (map_all (\<lambda>source. Base_get (src_base_id source) ncMeta) sources)
                     (\<lambda>bases. NcError_integrationLinkedWithMultiple bases sources)
              else ret ()) (\<lambda>_.
         seq (for_each (\<lambda>source. sourcesService_baseDelete (src_id source) ncMeta) sources)
           (\<lambda>_.
         seq (Integration_delete integration ncMeta) (\<lambda>_.
         seq (appHooksService_emit INTEGRATION_DELETE integration req) (\<lambda>_.
         ncMeta_commit))))))"

definition integrationDelete :: "ident \<Rightarrow> nc_request \<Rightarrow> bool \<Rightarrow> bool prog" where
  "integrationDelete integrationId req force =
     seq Noco_ncMeta_startTransaction (\<lambda>ncMeta.
     seq (try_catch (delete_body integrationId req force ncMeta)
            (\<lambda>e. seq ncMeta_rollback (\<lambda>_. NcError_badRequest e))) (\<lambda>_.
     ret True))"

text \<open>\<^verbatim>\<open>integrationSoftDelete\<close>\<close>

definition integrationSoftDelete :: "ident \<Rightarrow> bool prog" where
  "integrationSoftDelete integrationId =
     seq (try_catch
            (seq (Integration_get integrationId False Root) (\<lambda>got.
             case got of
               None \<Rightarrow> raise TypeError
             | Some integration \<Rightarrow> Integration_softDelete integration))
            (\<lambda>e. NcError_badRequest e)) (\<lambda>_.
     ret True)"

text \<open>
  \<^verbatim>\<open>integrationCreate\<close>. \<^verbatim>\<open>copy_from_id\<close> is tested for truthiness, so the empty
  string counts as absent; \<^verbatim>\<open>!integrationBody?.id\<close> holds of \<^verbatim>\<open>undefined\<close> and of an
  empty \<^verbatim>\<open>id\<close>. The spread of the payload into the body of the new record is
  \<open>body_of_req\<close>. \<^verbatim>\<open>param.req.user.id\<close> is a TypeError when the request has no user.
  The optional \<^verbatim>\<open>logger\<close> callback is left out.
\<close>

definition truthy :: "ident option \<Rightarrow> bool" where
  "truthy x = (case x of None \<Rightarrow> False | Some i \<Rightarrow> i \<noteq> [])"

definition body_of_req :: "integration_req \<Rightarrow> integration" where
  "body_of_req r =
     \<lparr>int_id = [], int_fk_workspace_id = req_fk_workspace_id r, int_title = req_title r,
      int_config = req_config r, int_deleted = None, int_created_by = None,
      int_sources = None\<rparr>"

definition create_body :: "integration_req \<Rightarrow> integration prog" where
  "create_body payload =
     (case copy_from_id payload of
        None \<Rightarrow> ret (body_of_req payload)
      | Some from_id \<Rightarrow>
          if from_id = [] then ret (body_of_req payload)
          else
            seq (Integration_get from_id False Root) (\<lambda>got.
            case got of
              None \<Rightarrow> NcError_integrationNotFound from_id
            | Some integrationBody \<Rightarrow>
                if int_id integrationBody = [] then NcError_integrationNotFound from_id
                else
                  seq (getConnectionConfig integrationBody) (\<lambda>c.
                  ret (integrationBody\<lparr>int_config := c\<rparr>))))"

definition integrationCreate :: "integration_req \<Rightarrow> nc_request \<Rightarrow> integration prog" where
  "integrationCreate payload req =
     seq (validatePayload payload) (\<lambda>_.
     seq (create_body payload) (\<lambda>integrationBody.
     case user req of
       None \<Rightarrow> raise TypeError
     | Some uid \<Rightarrow>
         seq (Integration_createIntegration
                (integrationBody
                   \<lparr>int_title := (if truthy (copy_from_id payload)
                                  then int_title integrationBody @ ''_copy''
                                  else int_title integrationBody),
                    int_created_by := Some uid\<rparr>)) (\<lambda>integration.
         let integration = integration\<lparr>int_config := None\<rparr> in
         seq (appHooksService_emit INTEGRATION_CREATE integration req) (\<lambda>_.
         ret integration))))"

subsection \<open>Notions the properties are stated with\<close>

text \<open>
  A source refers to an integration through \<^verbatim>\<open>fk_workspace_id\<close> and
  \<^verbatim>\<open>fk_integration_id\<close>; the active dependents of an integration are the sources of
  the store that refer to it and whose delete flag is false or null.
\<close>

definition references :: "integration \<Rightarrow> source \<Rightarrow> bool" where
  "references i r =
     (src_fk_workspace_id r = int_fk_workspace_id i \<and> src_fk_integration_id r = Some (int_id i))"

definition active_dependents :: "integration \<Rightarrow> store \<Rightarrow> source list" where
  "active_dependents i s = filter (\<lambda>r. references i r \<and> is_active r) (sources s)"

text \<open>The world in which the delete flag of the named integration is set.\<close>

definition set_deleted_flag :: "ident \<Rightarrow> world \<Rightarrow> world" where
  "set_deleted_flag integrationId w =
     w\<lparr>db := (db w)\<lparr>integrations :=
            map (\<lambda>r. if int_id r = integrationId then r\<lparr>int_deleted := Some True\<rparr> else r)
              (integrations (db w))\<rparr>\<rparr>"

text \<open>The record a copy of \<open>orig\<close> is expected to be, for a given identity and creator.\<close>

definition expected_copy :: "integration \<Rightarrow> ident \<Rightarrow> ident \<Rightarrow> integration" where
  "expected_copy orig new_id uid =
     \<lparr>int_id = new_id,
      int_fk_workspace_id = int_fk_workspace_id orig,
      int_title = int_title orig @ ''_copy'',
      int_config = map_option (encrypt \<circ> decrypt) (int_config orig),
      int_deleted = None,
      int_created_by = Some uid,
      int_sources = None\<rparr>"

text \<open>
  The cache after the config \<open>c\<close> has been patched into the entries of the sources
  \<open>sids\<close>, the pool after their connections have been released, and the store after
  the payload has been persisted on the integration.
\<close>

definition patched ::
  "cfg option \<Rightarrow> ident list \<Rightarrow> (string \<times> source) list \<Rightarrow> (string \<times> source) list" where
  "patched c sids entries =
     map (\<lambda>(k, r). if k \<in> cache_key ` set sids then (k, r\<lparr>src_integration_config := c\<rparr>)
                    else (k, r)) entries"

definition released :: "ident list \<Rightarrow> ident list \<Rightarrow> ident list" where
  "released sids cs = filter (\<lambda>c. c \<notin> set sids) cs"

definition update_rows :: "ident \<Rightarrow> integration_req \<Rightarrow> store \<Rightarrow> store" where
  "update_rows integrationId body s =
     s\<lparr>integrations :=
         map (\<lambda>x. if int_id x = integrationId then apply_req body x else x) (integrations s)\<rparr>"

text \<open>
  The calls the propagation makes for one source, in the order of the source text:
  the cache patch, the release of the local connection and, when the bus is
  available, the broadcast to the workers and the one to the primary; the calls of a
  whole propagation are those of its sources, one source after the other. \<open>effect\<close>
  is what a call of the propagation that completes does to the world, \<open>run_calls\<close>
  the world after a list of completed calls, and \<open>exec_calls\<close> makes the calls of a
  list in order and stops at the first that fails.
\<close>

definition step_calls :: "bool \<Rightarrow> source \<Rightarrow> call list" where
  "step_calls available s =
     [CacheUpdate (cache_key (src_id s)), ConnDelete (src_id s)]
     @ (if available then [EmitWorker (src_id s), EmitPrimary (src_id s)] else [])"

definition propagation_calls :: "bool \<Rightarrow> source list \<Rightarrow> call list" where
  "propagation_calls available srcs = concat (map (step_calls available) srcs)"

fun effect :: "integration \<Rightarrow> call \<Rightarrow> world \<Rightarrow> world" where
  "effect i (CacheUpdate key) w =
     w\<lparr>cache := map (\<lambda>(k, r). if k = key
                               then (k, r\<lparr>src_integration_config := int_config i\<rparr>)
                               else (k, r)) (cache w)\<rparr>"
| "effect i (ConnDelete sid) w = w\<lparr>conns := removeAll sid (conns w)\<rparr>"
| "effect i (EmitWorker sid) w = w\<lparr>worker_cmds := worker_cmds w @ [(RELEASE, sid)]\<rparr>"
| "effect i (EmitPrimary sid) w = w\<lparr>primary_cmds := primary_cmds w @ [(RELEASE, sid)]\<rparr>"
| "effect i c w = w"

definition run_calls :: "integration \<Rightarrow> call list \<Rightarrow> world \<Rightarrow> world" where
  "run_calls i cs w = foldl (\<lambda>w c. effect i c w) w cs"

fun exec_calls :: "integration \<Rightarrow> call list \<Rightarrow> unit prog" where
  "exec_calls i [] w = (Inr (), w)"
| "exec_calls i (c # cs) w =
     (if c \<in> set (faults w) then (Inl (Fault c), w) else exec_calls i cs (effect i c w))"

text \<open>
  A program keeps a component of the world when no run of it changes that component;
  it keeps the durable store on failure when every run that raises leaves \<open>db\<close> as it
  was.
\<close>

definition keeps :: "(world \<Rightarrow> 'b) \<Rightarrow> 'a prog \<Rightarrow> bool" where
  "keeps f m = (\<forall>w. f (snd (m w)) = f w)"


subsection \<open>A sample installation\<close>

text \<open>
  One integration in workspace \<open>w1\<close>; four sources that refer to it, of which the
  first three are active (delete flag null, false, null) and the fourth is deleted;
  their bases; a cache entry and a live connection for each active source.
\<close>

definition ex_integration :: integration where
  "ex_integration =
     \<lparr>int_id = ''i1'', int_fk_workspace_id = ''w1'', int_title = ''pg'',
      int_config = Some (Sealed ''c0''), int_deleted = None, int_created_by = Some ''u1'',
      int_sources = None\<rparr>"

definition ex_source :: "ident \<Rightarrow> ident \<Rightarrow> bool option \<Rightarrow> source" where
  "ex_source sid bid del =
     \<lparr>src_id = sid, src_base_id = bid, src_fk_workspace_id = ''w1'',
      src_fk_integration_id = Some ''i1'', src_deleted = del,
      src_integration_config = Some (Sealed ''c0'')\<rparr>"

definition ex_base :: "ident \<Rightarrow> string \<Rightarrow> base" where
  "ex_base bid t = \<lparr>base_id = bid, base_fk_workspace_id = ''w1'', base_title = t\<rparr>"

definition ex_store :: store where
  "ex_store =
     \<lparr>integrations = [ex_integration],
      sources = [ex_source ''s1'' ''b1'' None, ex_source ''s2'' ''b2'' (Some False),
                 ex_source ''s3'' ''b3'' None, ex_source ''s4'' ''b4'' (Some True)],
      bases = [ex_base ''b1'' ''Sales'', ex_base ''b2'' ''Ops'', ex_base ''b3'' ''HR'',
               ex_base ''b4'' ''Old'']\<rparr>"

definition ex_world :: "bool \<Rightarrow> call list \<Rightarrow> world" where
  "ex_world available fs =
     \<lparr>db = ex_store, tx = None,
      cache = [(''base:s1'', ex_source ''s1'' ''b1'' None),
               (''base:s2'', ex_source ''s2'' ''b2'' (Some False)),
               (''base:s3'', ex_source ''s3'' ''b3'' None)],
      conns = [''s1'', ''s2'', ''s3''],
      bus_available = available, worker_cmds = [], primary_cmds = [], events = [],
      faults = fs\<rparr>"

definition ex_req :: nc_request where
  "ex_req = \<lparr>user = Some ''u1''\<rparr>"

definition ex_payload :: integration_req where
  "ex_payload =
     \<lparr>req_title = ''pg2'', req_config = Some (Opened ''c1''), req_fk_workspace_id = ''w1'',
      copy_from_id = None\<rparr>"

definition ex_copy_payload :: integration_req where
  "ex_copy_payload =
     \<lparr>req_title = ''ignored'', req_config = None, req_fk_workspace_id = ''w1'',
      copy_from_id = Some ''i1''\<rparr>"

section \<open>Properties\<close>

subsection \<open>Sequencing and frames\<close>

lemma seq_ret [simp]: "seq (ret x) k = k x"
  by (rule ext) (simp add: seq_def ret_def)

lemma seq_raise [simp]: "seq (raise e) k = raise e"
  by (rule ext) (simp add: seq_def raise_def)


lemma keeps_ret [simp]: "keeps f (ret x)"
  by (simp add: keeps_def ret_def)

lemma keeps_raise [simp]: "keeps f (raise e)"
  by (simp add: keeps_def raise_def)

lemma keeps_seq: "keeps f m \<Longrightarrow> (\<And>x. keeps f (k x)) \<Longrightarrow> keeps f (seq m k)"
  by (auto simp: keeps_def seq_def split: prod.splits sum.splits)
    (metis snd_conv)+

lemma keeps_call: "keeps f m \<Longrightarrow> keeps f (call c m)"
  by (simp add: keeps_def call_def)









subsection \<open>What the collaborators keep\<close>

lemma keeps_read_store [simp]: "keeps f (read_store h)"
  by (simp add: keeps_def read_store_def split: handle.splits option.splits)

lemma keeps_db_write_Trx [simp]: "keeps db (write_store Trx s)"
  by (simp add: keeps_def write_store_def split: option.splits)

lemma keeps_faults_write [simp]: "keeps faults (write_store h s)"
  by (simp add: keeps_def write_store_def split: handle.splits option.splits)

lemma keeps_Integration_get [simp]: "keeps f (Integration_get i c h)"
  by (simp add: Integration_get_def keeps_call keeps_seq)

lemma keeps_metaList2 [simp]: "keeps f (ncMeta_metaList2 h a b args)"
  by (simp add: ncMeta_metaList2_def keeps_call keeps_seq)

lemma keeps_delete_listing [simp]: "keeps f (delete_listing i h)"
  by (simp add: delete_listing_def)

lemma keeps_Base_get [simp]: "keeps f (Base_get b h)"
  by (simp add: Base_get_def keeps_call keeps_seq)

lemma keeps_db_baseDelete [simp]: "keeps db (sourcesService_baseDelete sid Trx)"
  by (auto simp: sourcesService_baseDelete_def keeps_def call_def seq_def read_store_def
      write_store_def split: option.splits)

lemma keeps_faults_baseDelete [simp]: "keeps faults (sourcesService_baseDelete sid h)"
  by (auto simp: sourcesService_baseDelete_def keeps_def call_def seq_def read_store_def
      write_store_def split: option.splits handle.splits)

lemma keeps_db_Integration_delete [simp]: "keeps db (Integration_delete i Trx)"
  by (simp add: Integration_delete_def keeps_call keeps_seq)

lemma keeps_faults_Integration_delete [simp]: "keeps faults (Integration_delete i h)"
  by (simp add: Integration_delete_def keeps_call keeps_seq)

lemma keeps_db_emit [simp]: "keeps db (appHooksService_emit ev i req)"
  by (simp add: keeps_def appHooksService_emit_def)

lemma keeps_faults_emit [simp]: "keeps faults (appHooksService_emit ev i req)"
  by (simp add: keeps_def appHooksService_emit_def)

lemma keeps_faults_commit [simp]: "keeps faults ncMeta_commit"
  by (simp add: keeps_def ncMeta_commit_def call_def split: option.splits)


lemma keeps_conflict [simp]: "keeps f (NcError_integrationLinkedWithMultiple bs ss)"
  by (simp add: NcError_integrationLinkedWithMultiple_def)



subsection \<open>The listings\<close>

lemma xc_holds_not_deleted: "xc_holds r not_deleted = is_active r"
  by (cases "src_deleted r") (auto simp: not_deleted_def is_active_def)

lemma is_active_iff: "is_active r = (src_deleted r \<noteq> Some True)"
  by (cases "src_deleted r") (auto simp: is_active_def)

lemma fk_integration_col:
  "(source_col r fk_integration_id = VStr i) = (src_fk_integration_id r = Some i)"
  by (cases "src_fk_integration_id r") simp_all

lemma delete_filter:
  "(in_scope RootScopes_WORKSPACE (src_fk_workspace_id r)
      \<and> in_scope RootScopes_WORKSPACE (src_base_id r)
      \<and> list_all (\<lambda>(c, v). source_col r c = v)
           [(fk_workspace_id, VStr (int_fk_workspace_id i)), (fk_integration_id, VStr (int_id i))]
      \<and> xc_holds r not_deleted)
   = (references i r \<and> is_active r)"
  by (simp add: references_def xc_holds_not_deleted fk_integration_col del: source_col.simps(2))

lemma update_filter:
  "(in_scope (Scope (int_fk_workspace_id i)) (src_fk_workspace_id r)
      \<and> in_scope RootScopes_WORKSPACE (src_base_id r)
      \<and> list_all (\<lambda>(c, v). source_col r c = v) [(fk_integration_id, VStr (int_id i))]
      \<and> xc_holds r not_deleted)
   = (references i r \<and> is_active r)"
  by (simp add: references_def xc_holds_not_deleted fk_integration_col del: source_col.simps(2))

lemma delete_listing_eq:
  assumes "MetaList2 \<notin> set (faults w)" and "read_store h w = (Inr s, w)"
  shows "delete_listing i h w = (Inr (active_dependents i s), w)"
  using assms
  by (simp add: delete_listing_def ncMeta_metaList2_def call_def seq_def ret_def
      active_dependents_def delete_filter [simplified])

lemma update_listing_eq:
  assumes "MetaList2 \<notin> set (faults w)" and "read_store h w = (Inr s, w)"
  shows "update_listing i h w = (Inr (active_dependents i s), w)"
  using assms
  by (simp add: update_listing_def ncMeta_metaList2_def call_def seq_def ret_def
      active_dependents_def update_filter [simplified])

lemma active_dependents_cong:
  "int_id i = int_id j \<Longrightarrow> int_fk_workspace_id i = int_fk_workspace_id j \<Longrightarrow>
   active_dependents i s = active_dependents j s"
  by (simp add: active_dependents_def references_def)

lemma map_all_Base_get:
  assumes "read_store h w = (Inr st, w)"
  shows "\<forall>s\<in>set xs. BaseGet (src_base_id s) \<notin> set (faults w) \<Longrightarrow>
    map_all (\<lambda>s. Base_get (src_base_id s) h) xs w
      = (Inr (map (\<lambda>s. find (\<lambda>b. base_id b = src_base_id s) (bases st)) xs), w)"
proof (induction xs)
  case Nil
  show ?case by (simp add: ret_def)
next
  case (Cons x xs)
  have "Base_get (src_base_id x) h w = (Inr (find (\<lambda>b. base_id b = src_base_id x) (bases st)), w)"
    using Cons.prems assms by (simp add: Base_get_def call_def seq_def ret_def)
  with Cons show ?case by (simp add: seq_def ret_def)
qed

subsection \<open>Rows and configs\<close>

lemma decrypt_encrypt_decrypt: "decrypt (encrypt (decrypt c)) = decrypt c"
  by (cases c) simp_all

lemma find_int_id: "find (\<lambda>r. int_id r = i) xs = Some row \<Longrightarrow> int_id row = i"
  by (induction xs) (auto split: if_splits)






lemma foldr_max_ge: "u \<in> set used \<Longrightarrow> length u \<le> foldr max (map length used) 0"
  by (induction used) auto

lemma fresh_id_fresh: "fresh_id used \<notin> set used"
proof
  assume "fresh_id used \<in> set used"
  then have "length (fresh_id used) \<le> foldr max (map length used) 0"
    by (rule foldr_max_ge)
  then show False by (simp add: fresh_id_def)
qed

lemma create_body_copy:
  assumes "copy_from_id payload = Some X" and "X \<noteq> []"
    and "IntegrationGet X \<notin> set (faults w)"
    and "GetConnectionConfig X \<notin> set (faults w)"
    and "find (\<lambda>r. int_id r = X) (integrations (db w)) = Some orig"
  shows "create_body payload w = (Inr (orig\<lparr>int_config := map_option decrypt (int_config orig)\<rparr>), w)"
  using assms find_int_id [OF assms(5)]
  by (simp add: create_body_def Integration_get_def getConnectionConfig_def call_def seq_def
      ret_def read_store_def)

lemma create_body_missing:
  assumes "copy_from_id payload = Some X" and "X \<noteq> []"
    and "IntegrationGet X \<notin> set (faults w)"
    and "find (\<lambda>r. int_id r = X) (integrations (db w)) = None"
  shows "create_body payload w = (Inl (IntegrationNotFound X), w)"
  using assms
  by (simp add: create_body_def Integration_get_def call_def seq_def ret_def read_store_def
      NcError_integrationNotFound_def raise_def)

subsection \<open>Propagation\<close>

lemma patched_step:
  "patched c sids
     (map (\<lambda>(k, r). if k = cache_key x then (k, r\<lparr>src_integration_config := c\<rparr>) else (k, r)) es)
   = patched c (x # sids) es"
proof (induction es)
  case Nil
  show ?case by (simp add: patched_def)
next
  case (Cons e es)
  obtain k r where e: "e = (k, r)" by (cases e)
  from Cons show ?case
    unfolding patched_def e by (simp add: image_iff)
qed

lemma released_step: "released sids (removeAll x cs) = released (x # sids) cs"
  by (auto simp: released_def removeAll_filter_not_eq intro: filter_cong)

lemma propagate_one_local:
  assumes "\<not> bus_available w"
    and "CacheUpdate (cache_key (src_id s)) \<notin> set (faults w)"
    and "ConnDelete (src_id s) \<notin> set (faults w)"
  shows "propagate_one i s w =
           (Inr (), w\<lparr>cache := map (\<lambda>(k, r). if k = cache_key (src_id s)
                                              then (k, r\<lparr>src_integration_config := int_config i\<rparr>)
                                              else (k, r)) (cache w),
                      conns := removeAll (src_id s) (conns w)\<rparr>)"
  using assms
  by (simp add: propagate_one_def NocoCache_update_def NcConnectionMgrv2_deleteAwait_def
      JobsRedis_available_def call_def seq_def ret_def)

lemma for_each_propagate_local:
  "\<not> bus_available w \<Longrightarrow>
   \<forall>s\<in>set xs. CacheUpdate (cache_key (src_id s)) \<notin> set (faults w)
               \<and> ConnDelete (src_id s) \<notin> set (faults w) \<Longrightarrow>
   for_each (propagate_one i) xs w =
     (Inr (), w\<lparr>cache := patched (int_config i) (map src_id xs) (cache w),
                conns := released (map src_id xs) (conns w)\<rparr>)"
proof (induction xs arbitrary: w)
  case Nil
  show ?case by (simp add: ret_def patched_def released_def)
next
  case (Cons x xs)
  let ?w1 = "w\<lparr>cache := map (\<lambda>(k, r). if k = cache_key (src_id x)
                                         then (k, r\<lparr>src_integration_config := int_config i\<rparr>)
                                         else (k, r)) (cache w),
                 conns := removeAll (src_id x) (conns w)\<rparr>"
  have one: "propagate_one i x w = (Inr (), ?w1)"
    using Cons.prems by (simp add: propagate_one_local)
  have "for_each (propagate_one i) xs ?w1 =
          (Inr (), ?w1\<lparr>cache := patched (int_config i) (map src_id xs) (cache ?w1),
                       conns := released (map src_id xs) (conns ?w1)\<rparr>)"
    using Cons.prems by (intro Cons.IH) simp_all
  then show ?case
    using one by (simp add: seq_def patched_step released_step)
qed

text \<open>The per-source step of the source text is the sequence of its calls.\<close>

lemma faults_effect [simp]: "faults (effect i c w) = faults w"
  by (cases c) simp_all

lemma bus_effect [simp]: "bus_available (effect i c w) = bus_available w"
  by (cases c) simp_all

lemma bus_exec_calls: "bus_available (snd (exec_calls i cs w)) = bus_available w"
  by (induction cs arbitrary: w) simp_all

lemma propagate_one_exec:
  "propagate_one i s w = exec_calls i (step_calls (bus_available w) s) w"
  by (simp add: propagate_one_def step_calls_def NocoCache_update_def
      NcConnectionMgrv2_deleteAwait_def JobsRedis_available_def JobsRedis_emitWorkerCommand_def
      JobsRedis_emitPrimaryCommand_def call_def seq_def ret_def)

lemma exec_calls_append:
  "exec_calls i (xs @ ys) w =
     (case exec_calls i xs w of (Inl e, w1) \<Rightarrow> (Inl e, w1) | (Inr u, w1) \<Rightarrow> exec_calls i ys w1)"
  by (induction xs arbitrary: w) simp_all

lemma for_each_exec:
  "for_each (propagate_one i) srcs w = exec_calls i (propagation_calls (bus_available w) srcs) w"
proof (induction srcs arbitrary: w)
  case Nil
  show ?case by (simp add: propagation_calls_def ret_def)
next
  case (Cons s srcs)
  obtain r w1 where one: "exec_calls i (step_calls (bus_available w) s) w = (r, w1)"
    by (cases "exec_calls i (step_calls (bus_available w) s) w")
  have bus: "bus_available w1 = bus_available w"
    using bus_exec_calls [of i "step_calls (bus_available w) s" w] one by simp
  show ?case
  proof (cases r)
    case (Inl e)
    with one show ?thesis
      by (simp add: seq_def propagate_one_exec propagation_calls_def exec_calls_append)
  next
    case (Inr u)
    with one bus Cons.IH [of w1] show ?thesis
      by (simp add: seq_def propagate_one_exec propagation_calls_def exec_calls_append)
  qed
qed

lemma exec_calls_abort:
  "\<forall>b\<in>set before. b \<notin> set (faults w) \<Longrightarrow> c \<in> set (faults w) \<Longrightarrow>
   exec_calls i (before @ c # after) w = (Inl (Fault c), run_calls i before w)"
proof (induction before arbitrary: w)
  case Nil
  then show ?case by (simp add: run_calls_def)
next
  case (Cons b before)
  have "exec_calls i (before @ c # after) (effect i b w)
          = (Inl (Fault c), run_calls i before (effect i b w))"
    using Cons.prems by (intro Cons.IH) simp_all
  with Cons.prems show ?case by (simp add: run_calls_def)
qed

lemma exec_calls_ok:
  "\<forall>b\<in>set cs. b \<notin> set (faults w) \<Longrightarrow> exec_calls i cs w = (Inr (), run_calls i cs w)"
proof (induction cs arbitrary: w)
  case Nil
  show ?case by (simp add: run_calls_def)
next
  case (Cons b cs)
  have "exec_calls i cs (effect i b w) = (Inr (), run_calls i cs (effect i b w))"
    using Cons.prems by (intro Cons.IH) simp_all
  with Cons.prems show ?case by (simp add: run_calls_def)
qed

lemma updateIntegration_ok:
  assumes "UpdateIntegration integrationId \<notin> set (faults w)"
    and "find (\<lambda>r. int_id r = integrationId) (integrations (db w)) = Some row"
  shows "Integration_updateIntegration integrationId body w
           = (Inr (apply_req body row), w\<lparr>db := update_rows integrationId body (db w)\<rparr>)"
  using assms
  by (simp add: Integration_updateIntegration_def call_def seq_def ret_def read_store_def
      write_store_def update_rows_def)

subsection \<open>Unfolding on the sample installation\<close>

lemmas ex_defs = ex_world_def ex_store_def ex_integration_def ex_source_def ex_base_def
  ex_req_def ex_payload_def ex_copy_payload_def

lemmas prog_defs = ret_def raise_def seq_def try_catch_def call_def read_store_def
  write_store_def

lemmas collab_defs = Noco_ncMeta_startTransaction_def ncMeta_commit_def ncMeta_rollback_def
  ncMeta_metaList2_def Integration_get_def getConnectionConfig_def getSources_def
  Integration_updateIntegration_def Integration_createIntegration_def Integration_delete_def
  Integration_softDelete_def Base_get_def sourcesService_baseDelete_def NocoCache_update_def
  NcConnectionMgrv2_deleteAwait_def JobsRedis_available_def JobsRedis_emitWorkerCommand_def
  JobsRedis_emitPrimaryCommand_def appHooksService_emit_def validatePayload_def
  NcError_badRequest_def NcError_integrationLinkedWithMultiple_def
  NcError_integrationNotFound_def cache_key_def CacheScope_BASE_def apply_req_def fresh_id_def
  not_deleted_def is_active_def

lemmas service_defs = integrationGetWithConfig_def propagate_one_def update_listing_def
  updateIntegrationSourceConfig_def integrationUpdate_def delete_listing_def delete_body_def
  integrationDelete_def integrationSoftDelete_def truthy_def body_of_req_def create_body_def
  integrationCreate_def

lemmas notion_defs = references_def active_dependents_def set_deleted_flag_def
  expected_copy_def patched_def released_def update_rows_def

section \<open>The claims\<close>

subsection \<open>Hard delete without force\<close>

text \<open>
  Claim C1, as stated, on the sample installation: a delete without \<open>force\<close> of an
  integration with three active dependents. The error that reaches the caller is
  the BadRequest-class error thrown by the handler of the \<^verbatim>\<open>try\<close>; the conflict error
  is what it wraps, and is not itself the error of the call.
\<close>

theorem integrationDelete_conflict_counterexample:
  "fst (integrationDelete ''i1'' ex_req False (ex_world True []))
     = Inl (BadRequest (IntegrationLinkedWithMultiple
              [Some (ex_base ''b1'' ''Sales''), Some (ex_base ''b2'' ''Ops''),
               Some (ex_base ''b3'' ''HR'')]
              [ex_source ''s1'' ''b1'' None, ex_source ''s2'' ''b2'' (Some False),
               ex_source ''s3'' ''b3'' None]))
   \<and> fst (integrationDelete ''i1'' ex_req False (ex_world True []))
     \<noteq> Inl (IntegrationLinkedWithMultiple
              [Some (ex_base ''b1'' ''Sales''), Some (ex_base ''b2'' ''Ops''),
               Some (ex_base ''b3'' ''HR'')]
              [ex_source ''s1'' ''b1'' None, ex_source ''s2'' ''b2'' (Some False),
               ex_source ''s3'' ''b3'' None])"
  by (simp add: ex_defs prog_defs collab_defs service_defs)

text \<open>
  Claim C1, amended. For every integration that has at least one active dependent
  source, \<^verbatim>\<open>integrationDelete\<close> with \<open>force = false\<close> fails with a BadRequest-class
  error that wraps the conflict error; the conflict error names every blocking pair
  (each active dependent source, and the base read for it); the world is left as it
  was, the transaction closed: the integration, every source, the cache, the pool
  and the events are unchanged. The calls that read (start of the transaction, get,
  list, the reads of the bases) and the rollback are taken not to fail.
\<close>

theorem integrationDelete_conflict:
  assumes start: "StartTransaction \<notin> set (faults w)"
    and get: "IntegrationGet integrationId \<notin> set (faults w)"
    and list: "MetaList2 \<notin> set (faults w)"
    and rb: "Rollback \<notin> set (faults w)"
    and row: "find (\<lambda>r. int_id r = integrationId) (integrations (db w)) = Some row"
    and blocked: "active_dependents row (db w) \<noteq> []"
    and bget: "\<forall>s\<in>set (active_dependents row (db w)). BaseGet (src_base_id s) \<notin> set (faults w)"
  shows "integrationDelete integrationId req False w =
           (Inl (BadRequest (IntegrationLinkedWithMultiple
                   (map (\<lambda>s. find (\<lambda>b. base_id b = src_base_id s) (bases (db w)))
                      (active_dependents row (db w)))
                   (active_dependents row (db w)))),
            w\<lparr>tx := None\<rparr>)"
proof -
  let ?w1 = "w\<lparr>tx := Some (db w)\<rparr>"
  let ?i = "row\<lparr>int_config := map_option decrypt (int_config row)\<rparr>"
  let ?srcs = "active_dependents row (db w)"
  let ?bs = "map (\<lambda>s. find (\<lambda>b. base_id b = src_base_id s) (bases (db w))) ?srcs"
  have rd: "read_store Trx ?w1 = (Inr (db w), ?w1)"
    by (simp add: read_store_def)
  have g: "Integration_get integrationId True Trx ?w1 = (Inr (Some ?i), ?w1)"
    using get row by (simp add: Integration_get_def call_def seq_def ret_def read_store_def)
  have "active_dependents ?i (db w) = ?srcs"
    by (rule active_dependents_cong) simp_all
  then have l: "delete_listing ?i Trx ?w1 = (Inr ?srcs, ?w1)"
    using delete_listing_eq [OF _ rd, of ?i] list by simp
  have b: "map_all (\<lambda>s. Base_get (src_base_id s) Trx) ?srcs ?w1 = (Inr ?bs, ?w1)"
    using map_all_Base_get [OF rd, of ?srcs] bget by simp
  have body: "delete_body integrationId req False Trx ?w1
                = (Inl (IntegrationLinkedWithMultiple ?bs ?srcs), ?w1)"
    using blocked
    by (simp add: delete_body_def seq_def g l b
        NcError_integrationLinkedWithMultiple_def raise_def)
  have f1: "faults ?w1 = faults w" by simp
  show ?thesis
    using start rb body
    by (simp add: integrationDelete_def Noco_ncMeta_startTransaction_def call_def seq_def
        try_catch_def ncMeta_rollback_def NcError_badRequest_def raise_def)
qed

theorem integrationDelete_conflict_witness:
  "integrationDelete ''i1'' ex_req False (ex_world True [])
     = (Inl (BadRequest (IntegrationLinkedWithMultiple
               [Some (ex_base ''b1'' ''Sales''), Some (ex_base ''b2'' ''Ops''),
                Some (ex_base ''b3'' ''HR'')]
               [ex_source ''s1'' ''b1'' None, ex_source ''s2'' ''b2'' (Some False),
                ex_source ''s3'' ''b3'' None])),
        ex_world True [])"
proof -
  let ?w = "ex_world True []"
  have start: "StartTransaction \<notin> set (faults ?w)"
    and get: "IntegrationGet ''i1'' \<notin> set (faults ?w)"
    and list: "MetaList2 \<notin> set (faults ?w)"
    and rb: "Rollback \<notin> set (faults ?w)"
    by (simp_all add: ex_world_def)
  have row: "find (\<lambda>r. int_id r = ''i1'') (integrations (db ?w)) = Some ex_integration"
    by (simp add: ex_defs)
  have deps: "active_dependents ex_integration (db ?w)
                = [ex_source ''s1'' ''b1'' None, ex_source ''s2'' ''b2'' (Some False),
                   ex_source ''s3'' ''b3'' None]"
    by (simp add: ex_defs notion_defs is_active_def)
  have blocked: "active_dependents ex_integration (db ?w) \<noteq> []"
    by (simp add: deps)
  have bget: "\<forall>s\<in>set (active_dependents ex_integration (db ?w)).
                BaseGet (src_base_id s) \<notin> set (faults ?w)"
    by (simp add: ex_world_def)
  from integrationDelete_conflict [OF start get list rb row blocked bget, of ex_req]
  show ?thesis
    unfolding deps by (simp add: ex_defs)
qed

subsection \<open>Propagation of an update\<close>

text \<open>
  Claim C2, as stated, on the sample installation. Without a failure the update
  succeeds. When the cache patch of the second source fails, the update fails with
  that error; the first source has been propagated (cache patched, connection
  released, broadcast sent), the second and the third have not.
\<close>

theorem propagation_failure_surfaces_counterexample:
  "fst (integrationUpdate ''i1'' ex_payload ex_req (ex_world True []))
     = Inr (ex_integration\<lparr>int_title := ''pg2'', int_config := None\<rparr>)
   \<and> fst (integrationUpdate ''i1'' ex_payload ex_req (ex_world True [CacheUpdate ''base:s2'']))
     = Inl (Fault (CacheUpdate ''base:s2''))
   \<and> map (src_integration_config \<circ> snd)
        (cache (snd (integrationUpdate ''i1'' ex_payload ex_req
                       (ex_world True [CacheUpdate ''base:s2'']))))
     = [Some (Sealed ''c1''), Some (Sealed ''c0''), Some (Sealed ''c0'')]
   \<and> conns (snd (integrationUpdate ''i1'' ex_payload ex_req
                    (ex_world True [CacheUpdate ''base:s2''])))
     = [''s2'', ''s3'']
   \<and> worker_cmds (snd (integrationUpdate ''i1'' ex_payload ex_req
                          (ex_world True [CacheUpdate ''base:s2''])))
     = [(RELEASE, ''s1'')]"
  by (simp add: ex_defs prog_defs collab_defs service_defs Let_def)

text \<open>
  Claim C2, amended. In \<^verbatim>\<open>integrationUpdate\<close>, for a payload that passes validation and
  an integration that exists and is persisted, the propagation makes its calls in
  order: for each active dependent source, in the order of the listing, the cache
  patch, the local connection release and (the bus being available) the two
  broadcasts. The first of these calls that fails ends the propagation and the
  update: the call fails with that error, the calls before it have had their effect,
  those after it (the rest of that source and every later source) are not made, and
  no update event is emitted. A failure reading the list of dependent sources is
  surfaced in the same way. When none of the calls fails the update succeeds.
\<close>

theorem propagation_failure_surfaces:
  assumes v: "ValidatePayload \<notin> set (faults w)"
    and u: "UpdateIntegration integrationId \<notin> set (faults w)"
    and row: "find (\<lambda>r. int_id r = integrationId) (integrations (db w)) = Some row"
  shows "(MetaList2 \<in> set (faults w)
            \<longrightarrow> integrationUpdate integrationId body req w
                  = (Inl (Fault MetaList2), w\<lparr>db := update_rows integrationId body (db w)\<rparr>))
       \<and> (MetaList2 \<notin> set (faults w)
            \<longrightarrow> propagation_calls (bus_available w) (active_dependents row (db w))
                  = before @ c # after
            \<longrightarrow> (\<forall>b\<in>set before. b \<notin> set (faults w))
            \<longrightarrow> c \<in> set (faults w)
            \<longrightarrow> integrationUpdate integrationId body req w
                  = (Inl (Fault c),
                     run_calls (apply_req body row) before
                       (w\<lparr>db := update_rows integrationId body (db w)\<rparr>)))
       \<and> (MetaList2 \<notin> set (faults w)
            \<longrightarrow> (\<forall>b\<in>set (propagation_calls (bus_available w) (active_dependents row (db w))).
                   b \<notin> set (faults w))
            \<longrightarrow> integrationUpdate integrationId body req w
                  = (Inr ((apply_req body row)\<lparr>int_config := None\<rparr>),
                     (run_calls (apply_req body row)
                        (propagation_calls (bus_available w) (active_dependents row (db w)))
                        (w\<lparr>db := update_rows integrationId body (db w)\<rparr>))
                       \<lparr>events := events w
                          @ [(INTEGRATION_UPDATE, (apply_req body row)\<lparr>int_config := None\<rparr>,
                              req)]\<rparr>))"
proof -
  let ?i = "apply_req body row"
  let ?wb = "w\<lparr>db := update_rows integrationId body (db w)\<rparr>"
  let ?srcs = "active_dependents row (db w)"
  let ?calls = "propagation_calls (bus_available w) ?srcs"
  have upd: "Integration_updateIntegration integrationId body w = (Inr ?i, ?wb)"
    using u row by (rule updateIntegration_ok)
  have same: "active_dependents ?i (db ?wb) = ?srcs"
    by (simp add: active_dependents_def references_def apply_req_def update_rows_def)
  have loop: "for_each (propagate_one ?i) ?srcs ?wb = exec_calls ?i ?calls ?wb"
    using for_each_exec [of ?i ?srcs ?wb] by simp
  have events_run: "\<And>cs x. events (run_calls ?i cs x) = events x"
  proof -
    fix cs x
    have e: "\<And>c y. events (effect ?i c y) = events y"
      subgoal for c y by (cases c) simp_all
      done
    show "events (run_calls ?i cs x) = events x"
      unfolding run_calls_def by (induction cs arbitrary: x) (simp_all add: e)
  qed
  show ?thesis
  proof (intro conjI impI)
    assume "MetaList2 \<in> set (faults w)"
    then have "update_listing ?i Root ?wb = (Inl (Fault MetaList2), ?wb)"
      by (simp add: update_listing_def ncMeta_metaList2_def call_def)
    then show "integrationUpdate integrationId body req w = (Inl (Fault MetaList2), ?wb)"
      using v upd
      by (simp add: integrationUpdate_def updateIntegrationSourceConfig_def validatePayload_def
          call_def seq_def ret_def)
  next
    assume l: "MetaList2 \<notin> set (faults w)"
      and split: "?calls = before @ c # after"
      and ok: "\<forall>b\<in>set before. b \<notin> set (faults w)"
      and bad: "c \<in> set (faults w)"
    have lst: "update_listing ?i Root ?wb = (Inr ?srcs, ?wb)"
      using update_listing_eq [of ?wb Root "db ?wb" ?i] l same by (simp add: read_store_def)
    have "exec_calls ?i (before @ c # after) ?wb = (Inl (Fault c), run_calls ?i before ?wb)"
      using ok bad by (intro exec_calls_abort) simp_all
    with loop split have "for_each (propagate_one ?i) ?srcs ?wb
                            = (Inl (Fault c), run_calls ?i before ?wb)"
      by simp
    then show "integrationUpdate integrationId body req w
                 = (Inl (Fault c), run_calls ?i before ?wb)"
      using v upd lst
      by (simp add: integrationUpdate_def updateIntegrationSourceConfig_def validatePayload_def
          call_def seq_def ret_def)
  next
    assume l: "MetaList2 \<notin> set (faults w)"
      and ok: "\<forall>b\<in>set ?calls. b \<notin> set (faults w)"
    have lst: "update_listing ?i Root ?wb = (Inr ?srcs, ?wb)"
      using update_listing_eq [of ?wb Root "db ?wb" ?i] l same by (simp add: read_store_def)
    have "exec_calls ?i ?calls ?wb = (Inr (), run_calls ?i ?calls ?wb)"
      using ok by (intro exec_calls_ok) simp_all
    with loop have "for_each (propagate_one ?i) ?srcs ?wb = (Inr (), run_calls ?i ?calls ?wb)"
      by simp
    then show "integrationUpdate integrationId body req w
                 = (Inr (?i\<lparr>int_config := None\<rparr>),
                    (run_calls ?i ?calls ?wb)
                      \<lparr>events := events w @ [(INTEGRATION_UPDATE, ?i\<lparr>int_config := None\<rparr>, req)]\<rparr>)"
      using v upd lst
      by (simp add: integrationUpdate_def updateIntegrationSourceConfig_def validatePayload_def
          appHooksService_emit_def call_def seq_def ret_def Let_def events_run)
  qed
qed

theorem propagation_failure_surfaces_witness:
  "fst (integrationUpdate ''i1'' ex_payload ex_req (ex_world True [EmitPrimary ''s2'']))
     = Inl (Fault (EmitPrimary ''s2''))
   \<and> map (src_integration_config \<circ> snd)
        (cache (snd (integrationUpdate ''i1'' ex_payload ex_req
                       (ex_world True [EmitPrimary ''s2'']))))
     = [Some (Sealed ''c1''), Some (Sealed ''c1''), Some (Sealed ''c0'')]
   \<and> conns (snd (integrationUpdate ''i1'' ex_payload ex_req (ex_world True [EmitPrimary ''s2''])))
     = [''s3'']
   \<and> worker_cmds (snd (integrationUpdate ''i1'' ex_payload ex_req
                          (ex_world True [EmitPrimary ''s2''])))
     = [(RELEASE, ''s1''), (RELEASE, ''s2'')]
   \<and> primary_cmds (snd (integrationUpdate ''i1'' ex_payload ex_req
                           (ex_world True [EmitPrimary ''s2''])))
     = [(RELEASE, ''s1'')]
   \<and> events (snd (integrationUpdate ''i1'' ex_payload ex_req (ex_world True [EmitPrimary ''s2''])))
     = []
   \<and> fst (integrationUpdate ''i1'' ex_payload ex_req (ex_world True [ConnDelete ''s2'']))
     = Inl (Fault (ConnDelete ''s2''))
   \<and> conns (snd (integrationUpdate ''i1'' ex_payload ex_req (ex_world True [ConnDelete ''s2''])))
     = [''s2'', ''s3'']
   \<and> integrationUpdate ''i1'' ex_payload ex_req (ex_world True [MetaList2])
     = (Inl (Fault MetaList2),
        (ex_world True [MetaList2])\<lparr>db := update_rows ''i1'' ex_payload ex_store\<rparr>)
   \<and> fst (integrationUpdate ''i1'' ex_payload ex_req (ex_world True []))
     = Inr (ex_integration\<lparr>int_title := ''pg2'', int_config := None\<rparr>)"
proof -
  let ?p = "ex_world True [EmitPrimary ''s2'']"
  let ?c = "ex_world True [ConnDelete ''s2'']"
  let ?m = "ex_world True [MetaList2]"
  let ?n = "ex_world True []"
  have row: "\<And>fs. find (\<lambda>r. int_id r = ''i1'') (integrations (db (ex_world True fs)))
                     = Some ex_integration"
    by (simp add: ex_defs)
  have calls: "\<And>fs. propagation_calls (bus_available (ex_world True fs))
                        (active_dependents ex_integration (db (ex_world True fs)))
                 = [CacheUpdate ''base:s1'', ConnDelete ''s1'', EmitWorker ''s1'', EmitPrimary ''s1'',
                    CacheUpdate ''base:s2'', ConnDelete ''s2'', EmitWorker ''s2'', EmitPrimary ''s2'',
                    CacheUpdate ''base:s3'', ConnDelete ''s3'', EmitWorker ''s3'', EmitPrimary ''s3'']"
    by (simp add: ex_defs notion_defs is_active_def propagation_calls_def step_calls_def
        cache_key_def CacheScope_BASE_def)
  have pv: "ValidatePayload \<notin> set (faults ?p)"
    and pu: "UpdateIntegration ''i1'' \<notin> set (faults ?p)"
    and pl: "MetaList2 \<notin> set (faults ?p)"
    and pbad: "EmitPrimary ''s2'' \<in> set (faults ?p)"
    by (simp_all add: ex_world_def)
  have psplit: "propagation_calls (bus_available ?p) (active_dependents ex_integration (db ?p))
      = [CacheUpdate ''base:s1'', ConnDelete ''s1'', EmitWorker ''s1'', EmitPrimary ''s1'',
         CacheUpdate ''base:s2'', ConnDelete ''s2'', EmitWorker ''s2'']
        @ EmitPrimary ''s2''
        # [CacheUpdate ''base:s3'', ConnDelete ''s3'', EmitWorker ''s3'', EmitPrimary ''s3'']"
    by (simp add: calls)
  have pok: "\<forall>b\<in>set [CacheUpdate ''base:s1'', ConnDelete ''s1'', EmitWorker ''s1'',
                        EmitPrimary ''s1'', CacheUpdate ''base:s2'', ConnDelete ''s2'',
                        EmitWorker ''s2'']. b \<notin> set (faults ?p)"
    by (simp add: ex_world_def)
  have cv: "ValidatePayload \<notin> set (faults ?c)"
    and cu: "UpdateIntegration ''i1'' \<notin> set (faults ?c)"
    and cl: "MetaList2 \<notin> set (faults ?c)"
    and cbad: "ConnDelete ''s2'' \<in> set (faults ?c)"
    by (simp_all add: ex_world_def)
  have csplit: "propagation_calls (bus_available ?c) (active_dependents ex_integration (db ?c))
      = [CacheUpdate ''base:s1'', ConnDelete ''s1'', EmitWorker ''s1'', EmitPrimary ''s1'',
         CacheUpdate ''base:s2'']
        @ ConnDelete ''s2''
        # [EmitWorker ''s2'', EmitPrimary ''s2'',
           CacheUpdate ''base:s3'', ConnDelete ''s3'', EmitWorker ''s3'', EmitPrimary ''s3'']"
    by (simp add: calls)
  have cok: "\<forall>b\<in>set [CacheUpdate ''base:s1'', ConnDelete ''s1'', EmitWorker ''s1'',
                        EmitPrimary ''s1'', CacheUpdate ''base:s2'']. b \<notin> set (faults ?c)"
    by (simp add: ex_world_def)
  have mv: "ValidatePayload \<notin> set (faults ?m)"
    and mu: "UpdateIntegration ''i1'' \<notin> set (faults ?m)"
    and mbad: "MetaList2 \<in> set (faults ?m)"
    by (simp_all add: ex_world_def)
  have nv: "ValidatePayload \<notin> set (faults ?n)"
    and nu: "UpdateIntegration ''i1'' \<notin> set (faults ?n)"
    and nl: "MetaList2 \<notin> set (faults ?n)"
    and nok: "\<forall>b\<in>set (propagation_calls (bus_available ?n)
                          (active_dependents ex_integration (db ?n))). b \<notin> set (faults ?n)"
    by (simp_all add: ex_world_def)
  from propagation_failure_surfaces [OF pv pu row, where body = ex_payload and req = ex_req,
      THEN conjunct2, THEN conjunct1, THEN mp, OF pl, THEN mp, OF psplit, THEN mp, OF pok,
      THEN mp, OF pbad]
    propagation_failure_surfaces [OF cv cu row, where body = ex_payload and req = ex_req,
      THEN conjunct2, THEN conjunct1, THEN mp, OF cl, THEN mp, OF csplit, THEN mp, OF cok,
      THEN mp, OF cbad]
    propagation_failure_surfaces [OF mv mu row, where body = ex_payload and req = ex_req,
      THEN conjunct1, THEN mp, OF mbad]
    propagation_failure_surfaces [OF nv nu row, where body = ex_payload and req = ex_req,
      THEN conjunct2, THEN conjunct2, THEN mp, OF nl, THEN mp, OF nok]
  show ?thesis
    by (simp add: run_calls_def ex_defs apply_req_def)
qed

subsection \<open>The delete event and the commit\<close>

text \<open>
  Claim C3 says that no \<^verbatim>\<open>INTEGRATION_DELETE\<close> event is emitted unless the commit
  succeeded. In the source the \<^verbatim>\<open>emit\<close> stands before \<^verbatim>\<open>await ncMeta.commit()\<close>. On the
  sample installation with a commit that fails, the forced delete ends in a
  BadRequest-class error, the store still holds the integration and all its sources,
  and the delete event has been emitted.
\<close>

theorem delete_event_precedes_commit:
  "fst (integrationDelete ''i1'' ex_req True (ex_world True [Commit]))
     = Inl (BadRequest (Fault Commit))
   \<and> map fst (events (snd (integrationDelete ''i1'' ex_req True (ex_world True [Commit]))))
     = [INTEGRATION_DELETE]
   \<and> events (ex_world True [Commit]) = []
   \<and> db (snd (integrationDelete ''i1'' ex_req True (ex_world True [Commit]))) = ex_store"
  by (simp add: ex_defs prog_defs collab_defs service_defs)

subsection \<open>Rollback\<close>



subsection \<open>Copies\<close>

text \<open>
  Claim C5. \<^verbatim>\<open>integrationCreate\<close> with \<^verbatim>\<open>copy_from_id = X\<close>, for a payload that passes
  validation and a read of \<open>X\<close> that does not fail. If no integration has the
  identifier \<open>X\<close>, the call fails with NotFound and the world is unchanged. If \<open>orig\<close>
  is the integration with that identifier, and the decryption and the insert do not
  fail, the body built for the new record is \<open>orig\<close> with the decrypted connection
  config as its config, and the store gains exactly one record, under an identifier
  no integration had: its title is the title of \<open>orig\<close> followed by \<open>_copy\<close>, and
  its config, sealed at rest, decrypts to the decrypted connection config of \<open>orig\<close>. (\<open>X\<close> is not the empty string: an
  empty \<^verbatim>\<open>copy_from_id\<close> is falsy and asks for no copy.)
\<close>

theorem integrationCreate_copy:
  assumes copy: "copy_from_id payload = Some X" and ne: "X \<noteq> []"
    and v: "ValidatePayload \<notin> set (faults w)"
    and g: "IntegrationGet X \<notin> set (faults w)"
  shows "(find (\<lambda>r. int_id r = X) (integrations (db w)) = None
            \<longrightarrow> integrationCreate payload req w = (Inl (IntegrationNotFound X), w))
       \<and> (find (\<lambda>r. int_id r = X) (integrations (db w)) = Some orig
            \<longrightarrow> GetConnectionConfig X \<notin> set (faults w)
            \<longrightarrow> CreateIntegration \<notin> set (faults w)
            \<longrightarrow> user req = Some uid
            \<longrightarrow> (let new = expected_copy orig (fresh_id (map int_id (integrations (db w)))) uid;
                     returned = new\<lparr>int_config := None\<rparr>
                 in create_body payload w
                      = (Inr (orig\<lparr>int_config := map_option decrypt (int_config orig)\<rparr>), w)
                    \<and> integrationCreate payload req w
                      = (Inr returned,
                         w\<lparr>db := (db w)\<lparr>integrations := integrations (db w) @ [new]\<rparr>,
                           events := events w @ [(INTEGRATION_CREATE, returned, req)]\<rparr>)
                    \<and> int_id new \<notin> int_id ` set (integrations (db w))
                    \<and> int_title new = int_title orig @ ''_copy''
                    \<and> map_option decrypt (int_config new) = map_option decrypt (int_config orig)))"
proof (intro conjI impI)
  assume "find (\<lambda>r. int_id r = X) (integrations (db w)) = None"
  then have "create_body payload w = (Inl (IntegrationNotFound X), w)"
    using copy ne g by (simp add: create_body_missing)
  then show "integrationCreate payload req w = (Inl (IntegrationNotFound X), w)"
    using v by (simp add: integrationCreate_def validatePayload_def call_def seq_def ret_def)
next
  assume row: "find (\<lambda>r. int_id r = X) (integrations (db w)) = Some orig"
    and c: "GetConnectionConfig X \<notin> set (faults w)"
    and cr: "CreateIntegration \<notin> set (faults w)"
    and u: "user req = Some uid"
  define new where "new = expected_copy orig (fresh_id (map int_id (integrations (db w)))) uid"
  have body: "create_body payload w
                = (Inr (orig\<lparr>int_config := map_option decrypt (int_config orig)\<rparr>), w)"
    using copy ne g c row by (rule create_body_copy)
  have fresh: "int_id new \<notin> int_id ` set (integrations (db w))"
    using fresh_id_fresh [of "map int_id (integrations (db w))"]
    by (simp add: new_def expected_copy_def)
  have title: "int_title new = int_title orig @ ''_copy''"
    by (simp add: new_def expected_copy_def)
  have dec: "map_option decrypt (int_config new) = map_option decrypt (int_config orig)"
    by (cases "int_config orig") (simp_all add: new_def expected_copy_def decrypt_encrypt_decrypt)
  have run: "integrationCreate payload req w
      = (Inr (new\<lparr>int_config := None\<rparr>),
         w\<lparr>db := (db w)\<lparr>integrations := integrations (db w) @ [new]\<rparr>,
           events := events w @ [(INTEGRATION_CREATE, new\<lparr>int_config := None\<rparr>, req)]\<rparr>)"
    using v cr u copy ne body
    by (simp add: integrationCreate_def validatePayload_def Integration_createIntegration_def
        appHooksService_emit_def call_def seq_def ret_def read_store_def write_store_def
        truthy_def new_def expected_copy_def Let_def option.map_comp)
  show "let new = expected_copy orig (fresh_id (map int_id (integrations (db w)))) uid;
            returned = new\<lparr>int_config := None\<rparr>
        in create_body payload w
             = (Inr (orig\<lparr>int_config := map_option decrypt (int_config orig)\<rparr>), w)
           \<and> integrationCreate payload req w
             = (Inr returned,
                w\<lparr>db := (db w)\<lparr>integrations := integrations (db w) @ [new]\<rparr>,
                  events := events w @ [(INTEGRATION_CREATE, returned, req)]\<rparr>)
           \<and> int_id new \<notin> int_id ` set (integrations (db w))
           \<and> int_title new = int_title orig @ ''_copy''
           \<and> map_option decrypt (int_config new) = map_option decrypt (int_config orig)"
    using body run fresh title dec unfolding Let_def new_def by simp
qed

theorem integrationCreate_copy_witness:
  "integrationCreate ex_copy_payload ex_req (ex_world True [])
     = (Inr \<lparr>int_id = ''iii'', int_fk_workspace_id = ''w1'', int_title = ''pg_copy'',
             int_config = None, int_deleted = None, int_created_by = Some ''u1'',
             int_sources = None\<rparr>,
        (ex_world True [])
          \<lparr>db := ex_store\<lparr>integrations :=
                   [ex_integration,
                    \<lparr>int_id = ''iii'', int_fk_workspace_id = ''w1'', int_title = ''pg_copy'',
                      int_config = Some (Sealed ''c0''), int_deleted = None,
                      int_created_by = Some ''u1'', int_sources = None\<rparr>]\<rparr>,
            events := [(INTEGRATION_CREATE,
                        \<lparr>int_id = ''iii'', int_fk_workspace_id = ''w1'',
                          int_title = ''pg_copy'', int_config = None, int_deleted = None,
                          int_created_by = Some ''u1'', int_sources = None\<rparr>,
                        ex_req)]\<rparr>)
   \<and> integrationCreate (ex_copy_payload\<lparr>copy_from_id := Some ''zz''\<rparr>) ex_req (ex_world True [])
     = (Inl (IntegrationNotFound ''zz''), ex_world True [])"
proof -
  let ?w = "ex_world True []"
  have v: "ValidatePayload \<notin> set (faults ?w)"
    and g: "IntegrationGet ''i1'' \<notin> set (faults ?w)"
    and g': "IntegrationGet ''zz'' \<notin> set (faults ?w)"
    and c: "GetConnectionConfig ''i1'' \<notin> set (faults ?w)"
    and cr: "CreateIntegration \<notin> set (faults ?w)"
    by (simp_all add: ex_world_def)
  have copy: "copy_from_id ex_copy_payload = Some ''i1''" and ne: "''i1'' \<noteq> []"
    by (simp_all add: ex_defs)
  have copy': "copy_from_id (ex_copy_payload\<lparr>copy_from_id := Some ''zz''\<rparr>) = Some ''zz''"
    and ne': "''zz'' \<noteq> []"
    by simp_all
  have row: "find (\<lambda>r. int_id r = ''i1'') (integrations (db ?w)) = Some ex_integration"
    by (simp add: ex_defs)
  have none: "find (\<lambda>r. int_id r = ''zz'') (integrations (db ?w)) = None"
    by (simp add: ex_defs)
  have u: "user ex_req = Some ''u1''"
    by (simp add: ex_defs)
  from integrationCreate_copy [OF copy ne v g,
      where orig = ex_integration and req = ex_req and uid = "''u1''",
      THEN conjunct2, rule_format, OF row c cr u]
    integrationCreate_copy [OF copy' ne' v g', where req = ex_req,
      THEN conjunct1, rule_format, OF none]
  show ?thesis
    by (simp add: Let_def ex_defs expected_copy_def fresh_id_def)
qed

subsection \<open>The tri-state delete flag\<close>

text \<open>
  Claim C6. The listing of the conflict check in \<^verbatim>\<open>integrationDelete\<close> and the listing
  of \<^verbatim>\<open>updateIntegrationSourceConfig\<close> return the same sources: those of the store that
  refer to the integration and whose delete flag is not true. The filter they pass
  holds of a source with the flag false and of the same source with the flag null,
  and fails of it with the flag true.
\<close>

theorem listings_tri_state:
  assumes "MetaList2 \<notin> set (faults w)" and "read_store h w = (Inr s, w)"
  shows "delete_listing i h w
           = (Inr (filter (\<lambda>r. references i r \<and> src_deleted r \<noteq> Some True) (sources s)), w)
       \<and> update_listing i h w
           = (Inr (filter (\<lambda>r. references i r \<and> src_deleted r \<noteq> Some True) (sources s)), w)
       \<and> (\<forall>r. xc_holds (r\<lparr>src_deleted := Some False\<rparr>) not_deleted
              \<and> xc_holds (r\<lparr>src_deleted := None\<rparr>) not_deleted
              \<and> \<not> xc_holds (r\<lparr>src_deleted := Some True\<rparr>) not_deleted)"
  using delete_listing_eq [OF assms, of i] update_listing_eq [OF assms, of i]
  by (simp add: active_dependents_def not_deleted_def is_active_iff)

theorem listings_tri_state_witness:
  "delete_listing ex_integration Root (ex_world True [])
     = (Inr [ex_source ''s1'' ''b1'' None, ex_source ''s2'' ''b2'' (Some False),
             ex_source ''s3'' ''b3'' None], ex_world True [])
   \<and> update_listing ex_integration Root (ex_world True [])
     = (Inr [ex_source ''s1'' ''b1'' None, ex_source ''s2'' ''b2'' (Some False),
             ex_source ''s3'' ''b3'' None], ex_world True [])"
proof -
  let ?w = "ex_world True []"
  have l: "MetaList2 \<notin> set (faults ?w)" by (simp add: ex_world_def)
  have rd: "read_store Root ?w = (Inr ex_store, ?w)" by (simp add: read_store_def ex_world_def)
  from listings_tri_state [OF l rd, of ex_integration]
  show ?thesis by (simp add: ex_defs references_def)
qed

subsection \<open>The config in what is returned\<close>

text \<open>
  Claim C7. Whenever \<^verbatim>\<open>integrationUpdate\<close> or \<^verbatim>\<open>integrationCreate\<close> returns an
  integration, its \<^verbatim>\<open>config\<close> is \<^verbatim>\<open>undefined\<close>.
\<close>

theorem update_create_strip_config:
  "(integrationUpdate integrationId body req w = (Inr r, w1) \<longrightarrow> int_config r = None)
   \<and> (integrationCreate payload req w = (Inr r, w1) \<longrightarrow> int_config r = None)"
  by (auto simp: integrationUpdate_def integrationCreate_def seq_def ret_def raise_def
      appHooksService_emit_def Let_def split: prod.splits sum.splits option.splits)

theorem update_create_strip_config_witness:
  "(case fst (integrationUpdate ''i1'' ex_payload ex_req (ex_world True [])) of
      Inr r \<Rightarrow> int_config r = None | Inl e \<Rightarrow> False)
   \<and> (case fst (integrationCreate ex_payload ex_req (ex_world True [])) of
      Inr r \<Rightarrow> int_config r = None | Inl e \<Rightarrow> False)"
proof -
  let ?w = "ex_world True []"
  have "\<exists>r. fst (integrationUpdate ''i1'' ex_payload ex_req ?w) = Inr r"
    by (simp add: ex_defs prog_defs collab_defs service_defs Let_def)
  then obtain r w1 where u: "integrationUpdate ''i1'' ex_payload ex_req ?w = (Inr r, w1)"
    by (cases "integrationUpdate ''i1'' ex_payload ex_req ?w") auto
  have "\<exists>r. fst (integrationCreate ex_payload ex_req ?w) = Inr r"
    by (simp add: ex_defs prog_defs collab_defs service_defs Let_def)
  then obtain r' w1' where c: "integrationCreate ex_payload ex_req ?w = (Inr r', w1')"
    by (cases "integrationCreate ex_payload ex_req ?w") auto
  from update_create_strip_config [where integrationId = "''i1''" and body = ex_payload
      and req = ex_req and w = ?w and r = r and ?w1.0 = w1, THEN conjunct1, rule_format, OF u]
    update_create_strip_config [where payload = ex_payload
      and req = ex_req and w = ?w and r = r' and ?w1.0 = w1', THEN conjunct2, rule_format, OF c]
  show ?thesis by (simp add: u c)
qed

subsection \<open>An unavailable command bus\<close>

text \<open>
  Claim C8. With the command bus unavailable, an update whose other steps do not
  fail (validation, the persisting of the payload, the listing, and for each active
  dependent source the cache patch and the local release) succeeds: the cache entry
  of every active dependent source is patched with the new config, the connection of
  every one of them is released, and nothing is sent to the workers or to the
  primary (the queues of both are as they were). Nothing is asked of the broadcast
  calls: they may be set to fail.
\<close>

theorem update_without_bus:
  assumes bus: "\<not> bus_available w"
    and v: "ValidatePayload \<notin> set (faults w)"
    and u: "UpdateIntegration integrationId \<notin> set (faults w)"
    and l: "MetaList2 \<notin> set (faults w)"
    and row: "find (\<lambda>r. int_id r = integrationId) (integrations (db w)) = Some row"
    and local: "\<forall>s\<in>set (active_dependents row (db w)).
                  CacheUpdate (cache_key (src_id s)) \<notin> set (faults w)
                  \<and> ConnDelete (src_id s) \<notin> set (faults w)"
  shows "integrationUpdate integrationId body req w =
           (Inr ((apply_req body row)\<lparr>int_config := None\<rparr>),
            w\<lparr>db := update_rows integrationId body (db w),
              cache := patched (int_config (apply_req body row))
                         (map src_id (active_dependents row (db w))) (cache w),
              conns := released (map src_id (active_dependents row (db w))) (conns w),
              events := events w
                 @ [(INTEGRATION_UPDATE, (apply_req body row)\<lparr>int_config := None\<rparr>, req)]\<rparr>)"
proof -
  let ?i = "apply_req body row"
  let ?wb = "w\<lparr>db := update_rows integrationId body (db w)\<rparr>"
  let ?srcs = "active_dependents row (db w)"
  have upd: "Integration_updateIntegration integrationId body w = (Inr ?i, ?wb)"
    using u row by (rule updateIntegration_ok)
  have same: "active_dependents ?i (db ?wb) = ?srcs"
    by (simp add: active_dependents_def references_def apply_req_def update_rows_def)
  have lst: "update_listing ?i Root ?wb = (Inr ?srcs, ?wb)"
    using update_listing_eq [of ?wb Root "db ?wb" ?i] l same by (simp add: read_store_def)
  have loop: "for_each (propagate_one ?i) ?srcs ?wb =
                (Inr (), ?wb\<lparr>cache := patched (int_config ?i) (map src_id ?srcs) (cache ?wb),
                            conns := released (map src_id ?srcs) (conns ?wb)\<rparr>)"
    using bus local by (intro for_each_propagate_local) simp_all
  show ?thesis
    using v upd lst loop
    by (simp add: integrationUpdate_def updateIntegrationSourceConfig_def validatePayload_def
        appHooksService_emit_def call_def seq_def ret_def Let_def)
qed

theorem update_without_bus_witness:
  "fst (integrationUpdate ''i1'' ex_payload ex_req
          (ex_world False [EmitWorker ''s1'', EmitPrimary ''s1'']))
     = Inr (ex_integration\<lparr>int_title := ''pg2'', int_config := None\<rparr>)
   \<and> map (src_integration_config \<circ> snd)
        (cache (snd (integrationUpdate ''i1'' ex_payload ex_req
                       (ex_world False [EmitWorker ''s1'', EmitPrimary ''s1'']))))
     = [Some (Sealed ''c1''), Some (Sealed ''c1''), Some (Sealed ''c1'')]
   \<and> conns (snd (integrationUpdate ''i1'' ex_payload ex_req
                    (ex_world False [EmitWorker ''s1'', EmitPrimary ''s1''])))
     = []
   \<and> worker_cmds (snd (integrationUpdate ''i1'' ex_payload ex_req
                          (ex_world False [EmitWorker ''s1'', EmitPrimary ''s1''])))
     = []
   \<and> primary_cmds (snd (integrationUpdate ''i1'' ex_payload ex_req
                           (ex_world False [EmitWorker ''s1'', EmitPrimary ''s1''])))
     = []"
proof -
  let ?w = "ex_world False [EmitWorker ''s1'', EmitPrimary ''s1'']"
  have bus: "\<not> bus_available ?w"
    and v: "ValidatePayload \<notin> set (faults ?w)"
    and u: "UpdateIntegration ''i1'' \<notin> set (faults ?w)"
    and l: "MetaList2 \<notin> set (faults ?w)"
    by (simp_all add: ex_world_def)
  have row: "find (\<lambda>r. int_id r = ''i1'') (integrations (db ?w)) = Some ex_integration"
    by (simp add: ex_defs)
  have deps: "active_dependents ex_integration (db ?w)
                = [ex_source ''s1'' ''b1'' None, ex_source ''s2'' ''b2'' (Some False),
                   ex_source ''s3'' ''b3'' None]"
    by (simp add: ex_defs notion_defs is_active_def)
  have local: "\<forall>s\<in>set (active_dependents ex_integration (db ?w)).
                  CacheUpdate (cache_key (src_id s)) \<notin> set (faults ?w)
                  \<and> ConnDelete (src_id s) \<notin> set (faults ?w)"
    by (simp add: ex_world_def)
  from update_without_bus [OF bus v u l row local, of ex_payload ex_req]
  show ?thesis
    unfolding deps
    by (simp add: ex_defs patched_def released_def apply_req_def cache_key_def
        CacheScope_BASE_def)
qed

subsection \<open>Soft delete\<close>



subsection \<open>Get with config\<close>

text \<open>
  Claim C10. For an existing integration, whatever \<^verbatim>\<open>includeSources\<close> is, the
  integration that \<^verbatim>\<open>integrationGetWithConfig\<close> returns has as its \<^verbatim>\<open>config\<close> the
  decrypted connection config of the stored row; and when the read and the
  decryption do not fail the call does return it (with the sources loaded as well,
  when they are asked for and their read does not fail).
\<close>

theorem getWithConfig_populates:
  assumes row: "find (\<lambda>r. int_id r = integrationId) (integrations (db w)) = Some row"
  shows "(integrationGetWithConfig integrationId includeSources w = (Inr r, w1)
            \<longrightarrow> int_config r = map_option decrypt (int_config row))
       \<and> (IntegrationGet integrationId \<notin> set (faults w)
            \<longrightarrow> GetConnectionConfig integrationId \<notin> set (faults w)
            \<longrightarrow> integrationGetWithConfig integrationId False w
                  = (Inr (row\<lparr>int_config := map_option decrypt (int_config row)\<rparr>), w)
                \<and> (GetSources integrationId \<notin> set (faults w)
                     \<longrightarrow> (\<exists>srcs. integrationGetWithConfig integrationId True w
                            = (Inr (row\<lparr>int_config := map_option decrypt (int_config row),
                                       int_sources := Some srcs\<rparr>), w))))"
  using row find_int_id [OF row]
  by (auto simp: integrationGetWithConfig_def Integration_get_def getConnectionConfig_def
      getSources_def call_def seq_def ret_def raise_def read_store_def Let_def
      split: if_splits)

theorem getWithConfig_populates_witness:
  "integrationGetWithConfig ''i1'' False (ex_world True [])
     = (Inr (ex_integration\<lparr>int_config := Some (Opened ''c0'')\<rparr>), ex_world True [])
   \<and> map_option decrypt (int_config ex_integration) = Some (Opened ''c0'')"
proof -
  let ?w = "ex_world True []"
  have row: "find (\<lambda>r. int_id r = ''i1'') (integrations (db ?w)) = Some ex_integration"
    by (simp add: ex_defs)
  have g: "IntegrationGet ''i1'' \<notin> set (faults ?w)"
    and c: "GetConnectionConfig ''i1'' \<notin> set (faults ?w)"
    by (simp_all add: ex_world_def)
  from getWithConfig_populates [OF row, THEN conjunct2, rule_format, OF g c, THEN conjunct1]
  show ?thesis by (simp add: ex_integration_def)
qed

end
